theory Spec2Isabelle
  imports Complex_Main "HOL-Library.Word"
begin

text \<open>
  The tag logic of the backup tool's frontend: the helpers of \<open>types/tags.ts\<close>, the hooks
  of \<open>hooks/useTags.ts\<close> and the handlers of the components \<open>TagPicker\<close> and
  \<open>TagEditor\<close>, followed by the Tag Store that the specification describes for the
  backend.
\<close>

section \<open>Strings\<close>

text \<open>
  A TypeScript string is a sequence of UTF-16 code units. String literals of the source
  are written with \<open>str\<close>, which maps every character of an Isabelle literal to its code
  unit.
\<close>

type_synonym code_unit = "16 word"
type_synonym jsstring = "code_unit list"

definition cu :: "char \<Rightarrow> code_unit" where
  "cu c = of_char c"

definition str :: "string \<Rightarrow> jsstring" where
  "str s = map cu s"

text \<open>
  White space as \<open>String.prototype.trim\<close> and \<open>parseInt\<close> strip it: the ECMAScript
  WhiteSpace and LineTerminator code points.
\<close>

definition isWhiteSpace :: "code_unit \<Rightarrow> bool" where
  "isWhiteSpace c \<longleftrightarrow>
     c \<in> set [0x0009, 0x000A, 0x000B, 0x000C, 0x000D, 0x0020, 0x00A0, 0x1680,
              0x2028, 0x2029, 0x202F, 0x205F, 0x3000, 0xFEFF]
     \<or> (0x2000 \<le> c \<and> c \<le> 0x200A)"

definition trim :: "jsstring \<Rightarrow> jsstring" where
  "trim s = rev (dropWhile isWhiteSpace (rev (dropWhile isWhiteSpace s)))"

text \<open>
  \<open>s.substring(start, end)\<close> for non-negative integer arguments: both are clamped to the
  length and swapped when out of order.
\<close>

definition substring :: "jsstring \<Rightarrow> nat \<Rightarrow> nat \<Rightarrow> jsstring" where
  "substring s start end =
     (let a = min start (length s); b = min end (length s);
          lo = min a b; hi = max a b
      in take (hi - lo) (drop lo s))"

text \<open>
  \<open>s.replace(c, r)\<close> with a one-character string pattern \<open>c\<close>: only the first occurrence
  is replaced.
\<close>

fun replace_first :: "code_unit \<Rightarrow> jsstring \<Rightarrow> jsstring \<Rightarrow> jsstring" where
  "replace_first c r [] = []"
| "replace_first c r (x # xs) = (if x = c then r @ xs else x # replace_first c r xs)"

section \<open>Regular expressions\<close>

text \<open>
  The fragment of the regular expression syntax that the source uses: the anchors \<open>^\<close>
  and \<open>$\<close> (without the multiline flag), a literal character, a character class given by
  its ranges, sequence, alternation and the counted quantifier \<open>{n}\<close>.

  \<open>steps r (i, rest)\<close> lists every position that a match of \<open>r\<close> starting at index \<open>i\<close>
  (with \<open>rest\<close> still to read) can end at. \<open>regex_test\<close> is \<open>RegExp.prototype.test\<close> for
  a regular expression without flags: it succeeds when a match exists from some start index.
\<close>

datatype regex =
    Bol
  | Eol
  | Chr code_unit
  | Cls "(code_unit \<times> code_unit) list"
  | Seq regex regex
  | Alt regex regex
  | Rep nat regex

definition in_class :: "(code_unit \<times> code_unit) list \<Rightarrow> code_unit \<Rightarrow> bool" where
  "in_class rs c = list_ex (\<lambda>(lo, hi). lo \<le> c \<and> c \<le> hi) rs"

primrec iter :: "nat \<Rightarrow> ('a \<Rightarrow> 'a list) \<Rightarrow> 'a \<Rightarrow> 'a list" where
  "iter 0 f x = [x]"
| "iter (Suc n) f x = concat (map (iter n f) (f x))"

primrec steps :: "regex \<Rightarrow> nat \<times> jsstring \<Rightarrow> (nat \<times> jsstring) list" where
  "steps Bol p = (if fst p = 0 then [p] else [])"
| "steps Eol p = (if snd p = [] then [p] else [])"
| "steps (Chr c) p =
     (case snd p of [] \<Rightarrow> [] | x # xs \<Rightarrow> if x = c then [(Suc (fst p), xs)] else [])"
| "steps (Cls rs) p =
     (case snd p of [] \<Rightarrow> [] | x # xs \<Rightarrow> if in_class rs x then [(Suc (fst p), xs)] else [])"
| "steps (Seq a b) p = concat (map (steps b) (steps a p))"
| "steps (Alt a b) p = steps a p @ steps b p"
| "steps (Rep n r) p = iter n (steps r) p"

definition regex_test :: "regex \<Rightarrow> jsstring \<Rightarrow> bool" where
  "regex_test r s = list_ex (\<lambda>k. steps r (k, drop k s) \<noteq> []) [0..<Suc (length s)]"

section \<open>Tag types (types/tags.ts)\<close>

record Tag =
  name :: jsstring
  color :: jsstring

datatype TagTarget =
    Backup (saveName: jsstring) (backupName: jsstring)
  | Save (relativePath: jsstring)

text \<open>The \<open>type\<close> field of the tagged union.\<close>

primrec target_type :: "TagTarget \<Rightarrow> jsstring" where
  "target_type (Backup s b) = str ''backup''"
| "target_type (Save p) = str ''save''"

definition isBackupTarget :: "TagTarget \<Rightarrow> bool" where
  "isBackupTarget target \<longleftrightarrow> target_type target = str ''backup''"

definition isSaveTarget :: "TagTarget \<Rightarrow> bool" where
  "isSaveTarget target \<longleftrightarrow> target_type target = str ''save''"

text \<open>\<open>DEFAULT_TAG_COLORS\<close>, as pairs of name and value.\<close>

definition DEFAULT_TAG_COLORS :: "(jsstring \<times> jsstring) list" where
  "DEFAULT_TAG_COLORS =
     [(str ''Red'', str ''#EF4444''), (str ''Orange'', str ''#F97316''),
      (str ''Yellow'', str ''#EAB308''), (str ''Green'', str ''#22C55E''),
      (str ''Blue'', str ''#3B82F6''), (str ''Purple'', str ''#A855F7''),
      (str ''Pink'', str ''#EC4899''), (str ''Gray'', str ''#6B7280'')]"

subsection \<open>isValidHexColor\<close>

text \<open>The character class \<open>[A-Fa-f0-9]\<close> and the expression \<open>/^#([A-Fa-f0-9]{6}|[A-Fa-f0-9]{3})$/\<close>.\<close>

definition hex_class :: regex where
  "hex_class =
     Cls [(cu CHR ''A'', cu CHR ''F''), (cu CHR ''a'', cu CHR ''f''), (cu CHR ''0'', cu CHR ''9'')]"

definition hex_color_regex :: regex where
  "hex_color_regex =
     Seq Bol (Seq (Chr (cu CHR ''#'')) (Seq (Alt (Rep 6 hex_class) (Rep 3 hex_class)) Eol))"

definition isValidHexColor :: "jsstring \<Rightarrow> bool" where
  "isValidHexColor c = regex_test hex_color_regex c"

text \<open>
  The specification's words for the same set of strings: \<open>#\<close> followed by exactly 3 or
  exactly 6 hexadecimal digits.
\<close>

definition is_hex_digit :: "code_unit \<Rightarrow> bool" where
  "is_hex_digit c \<longleftrightarrow>
     (cu CHR ''0'' \<le> c \<and> c \<le> cu CHR ''9'') \<or>
     (cu CHR ''A'' \<le> c \<and> c \<le> cu CHR ''F'') \<or>
     (cu CHR ''a'' \<le> c \<and> c \<le> cu CHR ''f'')"

definition hex_color_spec :: "jsstring \<Rightarrow> bool" where
  "hex_color_spec s =
     (case s of
        [] \<Rightarrow> False
      | c # ds \<Rightarrow> c = cu CHR ''#'' \<and> (length ds = 3 \<or> length ds = 6) \<and> list_all is_hex_digit ds)"

subsection \<open>tagTargetToKey\<close>

definition tagTargetToKey :: "TagTarget \<Rightarrow> jsstring" where
  "tagTargetToKey target =
     (if isBackupTarget target
      then str ''backup:'' @ saveName target @ str '':'' @ backupName target
      else str ''save:'' @ relativePath target)"

text \<open>No \<open>saveName\<close> or \<open>backupName\<close> field of the target contains the separator.\<close>

primrec no_separator :: "TagTarget \<Rightarrow> bool" where
  "no_separator (Backup s b) \<longleftrightarrow> cu CHR '':'' \<notin> set s \<and> cu CHR '':'' \<notin> set b"
| "no_separator (Save p) \<longleftrightarrow> True"

subsection \<open>shouldUseLightText\<close>

text \<open>
  A Number is either \<open>NaN\<close> or a finite value; the values that \<open>shouldUseLightText\<close>
  computes are bounded, so the infinities do not arise. Every arithmetic operation rounds
  its exact result to a double: the rounding function \<open>rnd\<close> is a parameter, and nothing
  is assumed about it. \<open>NaN\<close> is contagious, and every comparison with \<open>NaN\<close> is false.
\<close>

datatype jsnum = NaN | Num real

definition jmul :: "(real \<Rightarrow> real) \<Rightarrow> jsnum \<Rightarrow> jsnum \<Rightarrow> jsnum" where
  "jmul rnd a b = (case (a, b) of (Num x, Num y) \<Rightarrow> Num (rnd (x * y)) | _ \<Rightarrow> NaN)"

definition jadd :: "(real \<Rightarrow> real) \<Rightarrow> jsnum \<Rightarrow> jsnum \<Rightarrow> jsnum" where
  "jadd rnd a b = (case (a, b) of (Num x, Num y) \<Rightarrow> Num (rnd (x + y)) | _ \<Rightarrow> NaN)"

text \<open>Division by the constant 255.\<close>

definition jdiv255 :: "(real \<Rightarrow> real) \<Rightarrow> jsnum \<Rightarrow> jsnum" where
  "jdiv255 rnd a = (case a of Num x \<Rightarrow> Num (rnd (x / 255)) | NaN \<Rightarrow> NaN)"

definition jless :: "jsnum \<Rightarrow> jsnum \<Rightarrow> bool" where
  "jless a b = (case (a, b) of (Num x, Num y) \<Rightarrow> x < y | _ \<Rightarrow> False)"

definition hex_digit_value :: "code_unit \<Rightarrow> nat" where
  "hex_digit_value c =
     (if cu CHR ''0'' \<le> c \<and> c \<le> cu CHR ''9'' then unat c - 48
      else if cu CHR ''A'' \<le> c \<and> c \<le> cu CHR ''F'' then unat c - 55
      else unat c - 87)"

definition hex_value :: "jsstring \<Rightarrow> nat" where
  "hex_value ds = foldl (\<lambda>a d. 16 * a + hex_digit_value d) 0 ds"

text \<open>
  \<open>parseInt(string, 16)\<close>: leading white space is dropped, then an optional sign, then an
  optional \<open>0x\<close> or \<open>0X\<close>; the longest prefix of hexadecimal digits is the number, and
  the result is \<open>NaN\<close> when that prefix is empty.
\<close>

definition parseInt16 :: "(real \<Rightarrow> real) \<Rightarrow> jsstring \<Rightarrow> jsnum" where
  "parseInt16 rnd string =
     (let S = dropWhile isWhiteSpace string;
          sign = (if S \<noteq> [] \<and> hd S = cu CHR ''-'' then - 1 else 1);
          S1 = (if S \<noteq> [] \<and> (hd S = cu CHR ''+'' \<or> hd S = cu CHR ''-'') then tl S else S);
          S2 = (if take 2 S1 = str ''0x'' \<or> take 2 S1 = str ''0X'' then drop 2 S1 else S1);
          Z = takeWhile is_hex_digit S2
      in if Z = [] then NaN else Num (rnd (sign * real (hex_value Z))))"

text \<open>\<open>(0.299 * r + 0.587 * g + 0.114 * b) / 255\<close>, evaluated left to right.\<close>

definition luminance :: "(real \<Rightarrow> real) \<Rightarrow> jsnum \<Rightarrow> jsnum \<Rightarrow> jsnum \<Rightarrow> jsnum" where
  "luminance rnd r g b =
     jdiv255 rnd
       (jadd rnd
          (jadd rnd (jmul rnd (Num (rnd (299 / 1000))) r) (jmul rnd (Num (rnd (587 / 1000))) g))
          (jmul rnd (Num (rnd (114 / 1000))) b))"

definition shouldUseLightText :: "(real \<Rightarrow> real) \<Rightarrow> jsstring \<Rightarrow> bool" where
  "shouldUseLightText rnd backgroundColor =
     (let hex = replace_first (cu CHR ''#'') [] backgroundColor;
          r = parseInt16 rnd (substring hex 0 2);
          g = parseInt16 rnd (substring hex 2 4);
          b = parseInt16 rnd (substring hex 4 6)
      in jless (luminance rnd r g b) (Num (1 / 2)))"

text \<open>
  The specification's side of a 6-digit colour: the value of a hexadecimal digit, read
  from a table, and the value of a pair of digits. The red, green and blue components of
  \<open>#RRGGBB\<close> are the values of its three pairs.
\<close>

definition hex_digit_table :: "(code_unit \<times> nat) list" where
  "hex_digit_table =
     zip (str ''0123456789abcdef'') [0..<16] @ zip (str ''ABCDEF'') [10..<16]"

definition digit_spec :: "code_unit \<Rightarrow> nat" where
  "digit_spec c = (case map_of hex_digit_table c of Some v \<Rightarrow> v | None \<Rightarrow> 0)"

definition byte_spec :: "code_unit \<Rightarrow> code_unit \<Rightarrow> nat" where
  "byte_spec hi lo = 16 * digit_spec hi + digit_spec lo"

section \<open>The hooks (hooks/useTags.ts)\<close>

subsection \<open>The backend seen from the hooks\<close>

text \<open>
  The hooks reach the backend through \<open>invoke\<close>, which returns a promise. The backend is
  not part of the sources, so the world holds its replies as a function of the number of
  commands invoked so far and of the command: a promise either resolves with a value or
  rejects with the value thrown. The world also records the commands invoked and the
  calls of \<open>console.error\<close>, in order. The value that a command without result resolves
  with is never read.

  An asynchronous function of the hooks either returns or throws; \<open>await\<close> of a rejected
  promise throws the rejection. The React state of a hook is a record, and a state setter
  is an update of it.
\<close>

datatype command =
    get_all_tags_command
  | create_tag_command jsstring jsstring
  | delete_tag_command jsstring
  | get_backup_tags_command jsstring jsstring
  | add_tags_to_backup_command jsstring jsstring "jsstring list"
  | remove_tags_from_backup_command jsstring jsstring "jsstring list"
  | get_save_tags_command jsstring
  | add_tags_to_save_command jsstring "jsstring list"
  | remove_tags_from_save_command jsstring "jsstring list"

type_synonym rejection = jsstring

datatype 'a settled = Resolved 'a | Rejected rejection

datatype 'a outcome = Returned 'a | Thrown rejection

record world =
  replies :: "nat \<Rightarrow> command \<Rightarrow> Tag list settled"
  invoked :: "command list"
  console :: "(jsstring \<times> rejection) list"

definition invoke :: "command \<Rightarrow> world \<Rightarrow> Tag list settled \<times> world" where
  "invoke c w = (replies w (length (invoked w)) c, w\<lparr>invoked := invoked w @ [c]\<rparr>)"

definition console_error :: "jsstring \<Rightarrow> rejection \<Rightarrow> world \<Rightarrow> world" where
  "console_error msg err w = w\<lparr>console := console w @ [(msg, err)]\<rparr>"

subsection \<open>useTags\<close>

text \<open>
  \<open>loading\<close> and \<open>error\<close> are the state that the three hooks share in shape; \<open>useTags\<close>
  adds the cached list \<open>tags\<close>.
\<close>

record hook_state =
  loading :: bool
  error :: "jsstring option"

record tags_state = hook_state +
  tags :: "Tag list"

definition loadAllTags :: "tags_state \<times> world \<Rightarrow> tags_state \<times> world" where
  "loadAllTags p =
     (let st1 = (fst p)\<lparr>loading := True, error := None\<rparr>;
          (r, w1) = invoke get_all_tags_command (snd p)
      in case r of
           Resolved allTags \<Rightarrow> (st1\<lparr>tags := allTags, loading := False\<rparr>, w1)
         | Rejected err \<Rightarrow>
             (st1\<lparr>error := Some (str ''Failed to load tags''), loading := False\<rparr>,
              console_error (str ''Failed to load tags:'') err w1))"

definition createTag :: "jsstring \<Rightarrow> jsstring \<Rightarrow> tags_state \<times> world \<Rightarrow> unit outcome \<times> tags_state \<times> world" where
  "createTag nm col p =
     (let st1 = (fst p)\<lparr>loading := True, error := None\<rparr>;
          (r, w1) = invoke (create_tag_command nm col) (snd p)
      in case r of
           Resolved _ \<Rightarrow>
             (let (st2, w2) = loadAllTags (st1, w1)
              in (Returned (), st2\<lparr>loading := False\<rparr>, w2))
         | Rejected err \<Rightarrow>
             (Thrown err,
              st1\<lparr>error := Some (str ''Failed to create tag''), loading := False\<rparr>,
              console_error (str ''Failed to create tag:'') err w1))"

definition deleteTag :: "jsstring \<Rightarrow> tags_state \<times> world \<Rightarrow> unit outcome \<times> tags_state \<times> world" where
  "deleteTag nm p =
     (let st1 = (fst p)\<lparr>loading := True, error := None\<rparr>;
          (r, w1) = invoke (delete_tag_command nm) (snd p)
      in case r of
           Resolved _ \<Rightarrow>
             (let (st2, w2) = loadAllTags (st1, w1)
              in (Returned (), st2\<lparr>loading := False\<rparr>, w2))
         | Rejected err \<Rightarrow>
             (Thrown err,
              st1\<lparr>error := Some (str ''Failed to delete tag''), loading := False\<rparr>,
              console_error (str ''Failed to delete tag:'') err w1))"

subsection \<open>useBackupTags\<close>

definition getBackupTags ::
  "jsstring \<Rightarrow> jsstring \<Rightarrow> hook_state \<times> world \<Rightarrow> Tag list outcome \<times> hook_state \<times> world" where
  "getBackupTags sv bk p =
     (let st1 = (fst p)\<lparr>loading := True, error := None\<rparr>;
          (r, w1) = invoke (get_backup_tags_command sv bk) (snd p)
      in case r of
           Resolved ts \<Rightarrow> (Returned ts, st1\<lparr>loading := False\<rparr>, w1)
         | Rejected err \<Rightarrow>
             (Returned [],
              st1\<lparr>error := Some (str ''Failed to get backup tags''), loading := False\<rparr>,
              console_error (str ''Failed to get backup tags:'') err w1))"

definition addBackupTags ::
  "jsstring \<Rightarrow> jsstring \<Rightarrow> jsstring list \<Rightarrow> hook_state \<times> world \<Rightarrow> unit outcome \<times> hook_state \<times> world" where
  "addBackupTags sv bk tagNames p =
     (let st1 = (fst p)\<lparr>loading := True, error := None\<rparr>;
          (r, w1) = invoke (add_tags_to_backup_command sv bk tagNames) (snd p)
      in case r of
           Resolved _ \<Rightarrow> (Returned (), st1\<lparr>loading := False\<rparr>, w1)
         | Rejected err \<Rightarrow>
             (Thrown err,
              st1\<lparr>error := Some (str ''Failed to add backup tags''), loading := False\<rparr>,
              console_error (str ''Failed to add backup tags:'') err w1))"

definition removeBackupTags ::
  "jsstring \<Rightarrow> jsstring \<Rightarrow> jsstring list \<Rightarrow> hook_state \<times> world \<Rightarrow> unit outcome \<times> hook_state \<times> world" where
  "removeBackupTags sv bk tagNames p =
     (let st1 = (fst p)\<lparr>loading := True, error := None\<rparr>;
          (r, w1) = invoke (remove_tags_from_backup_command sv bk tagNames) (snd p)
      in case r of
           Resolved _ \<Rightarrow> (Returned (), st1\<lparr>loading := False\<rparr>, w1)
         | Rejected err \<Rightarrow>
             (Thrown err,
              st1\<lparr>error := Some (str ''Failed to remove backup tags''), loading := False\<rparr>,
              console_error (str ''Failed to remove backup tags:'') err w1))"

subsection \<open>useSaveTags\<close>

definition getSaveTags ::
  "jsstring \<Rightarrow> hook_state \<times> world \<Rightarrow> Tag list outcome \<times> hook_state \<times> world" where
  "getSaveTags rp p =
     (let st1 = (fst p)\<lparr>loading := True, error := None\<rparr>;
          (r, w1) = invoke (get_save_tags_command rp) (snd p)
      in case r of
           Resolved ts \<Rightarrow> (Returned ts, st1\<lparr>loading := False\<rparr>, w1)
         | Rejected err \<Rightarrow>
             (Returned [],
              st1\<lparr>error := Some (str ''Failed to get save tags''), loading := False\<rparr>,
              console_error (str ''Failed to get save tags:'') err w1))"

definition addSaveTags ::
  "jsstring \<Rightarrow> jsstring list \<Rightarrow> hook_state \<times> world \<Rightarrow> unit outcome \<times> hook_state \<times> world" where
  "addSaveTags rp tagNames p =
     (let st1 = (fst p)\<lparr>loading := True, error := None\<rparr>;
          (r, w1) = invoke (add_tags_to_save_command rp tagNames) (snd p)
      in case r of
           Resolved _ \<Rightarrow> (Returned (), st1\<lparr>loading := False\<rparr>, w1)
         | Rejected err \<Rightarrow>
             (Thrown err,
              st1\<lparr>error := Some (str ''Failed to add save tags''), loading := False\<rparr>,
              console_error (str ''Failed to add save tags:'') err w1))"

definition removeSaveTags ::
  "jsstring \<Rightarrow> jsstring list \<Rightarrow> hook_state \<times> world \<Rightarrow> unit outcome \<times> hook_state \<times> world" where
  "removeSaveTags rp tagNames p =
     (let st1 = (fst p)\<lparr>loading := True, error := None\<rparr>;
          (r, w1) = invoke (remove_tags_from_save_command rp tagNames) (snd p)
      in case r of
           Resolved _ \<Rightarrow> (Returned (), st1\<lparr>loading := False\<rparr>, w1)
         | Rejected err \<Rightarrow>
             (Thrown err,
              st1\<lparr>error := Some (str ''Failed to remove save tags''), loading := False\<rparr>,
              console_error (str ''Failed to remove save tags:'') err w1))"

section \<open>TagPicker (components/TagPicker.tsx)\<close>

record picker_state =
  showCreateForm :: bool
  newTagName :: jsstring
  newTagColor :: jsstring
  customColor :: jsstring

text \<open>The state of a freshly mounted picker; the colour defaults to blue.\<close>

definition picker_initial :: picker_state where
  "picker_initial =
     \<lparr>showCreateForm = False, newTagName = [], newTagColor = snd (DEFAULT_TAG_COLORS ! 4),
      customColor = []\<rparr>"

datatype picker_effect = preventDefault | onCreateTag jsstring jsstring

text \<open>\<open>customColor || newTagColor\<close>: the empty string is falsy.\<close>

definition chosen_color :: "picker_state \<Rightarrow> jsstring" where
  "chosen_color ps = (if customColor ps \<noteq> [] then customColor ps else newTagColor ps)"

text \<open>
  The submit handler of the create form. \<open>has_onCreateTag\<close> tells whether the optional
  \<open>onCreateTag\<close> property was given. The result lists what the handler does to its
  surroundings, in order, with the component state it leaves.
\<close>

definition TagPicker_handleCreateTag ::
  "bool \<Rightarrow> picker_state \<Rightarrow> picker_effect list \<times> picker_state" where
  "TagPicker_handleCreateTag has_onCreateTag ps =
     (let nm = trim (newTagName ps);
          col = chosen_color ps
      in if nm = [] then ([preventDefault], ps)
         else if \<not> isValidHexColor col then ([preventDefault], ps)
         else (preventDefault # (if has_onCreateTag then [onCreateTag nm col] else []),
               ps\<lparr>newTagName := [], customColor := [], showCreateForm := False\<rparr>))"

section \<open>TagEditor (components/TagEditor.tsx)\<close>

record editor_state =
  selectedTags :: "Tag list"
  saving :: bool
  editor_error :: "jsstring option"

definition handleTagToggle :: "Tag \<Rightarrow> editor_state \<Rightarrow> editor_state" where
  "handleTagToggle tag es =
     es\<lparr>selectedTags :=
          (let prev = selectedTags es;
               isSelected = list_ex (\<lambda>t. name t = name tag) prev
           in if isSelected then filter (\<lambda>t. name t \<noteq> name tag) prev else prev @ [tag])\<rparr>"

definition handleRemoveSelected :: "jsstring \<Rightarrow> editor_state \<Rightarrow> editor_state" where
  "handleRemoveSelected tagName es =
     es\<lparr>selectedTags := filter (\<lambda>t. name t \<noteq> tagName) (selectedTags es)\<rparr>"

text \<open>
  \<open>handleCreateTag\<close> of the editor awaits \<open>createTag\<close> and \<open>loadAllTags\<close> of its own
  \<open>useTags\<close> instance, then tests the list \<open>selectedTags\<close> that its closure captured
  when the component rendered (\<open>captured\<close>) and appends to the list that the state holds
  when the update runs.
\<close>

definition TagEditor_handleCreateTag ::
  "jsstring \<Rightarrow> jsstring \<Rightarrow> Tag list \<Rightarrow> editor_state \<times> tags_state \<times> world \<Rightarrow>
   editor_state \<times> tags_state \<times> world" where
  "TagEditor_handleCreateTag nm col captured p =
     (case p of (es, ts, w) \<Rightarrow>
        (case createTag nm col (ts, w) of
           (Returned _, ts1, w1) \<Rightarrow>
             (let (ts2, w2) = loadAllTags (ts1, w1);
                  newTag = \<lparr>name = nm, color = col\<rparr>
              in (if \<not> list_ex (\<lambda>t. name t = nm) captured
                  then es\<lparr>selectedTags := selectedTags es @ [newTag]\<rparr>
                  else es, ts2, w2))
         | (Thrown _, ts1, w1) \<Rightarrow>
             (es\<lparr>editor_error := Some (str ''Failed to create tag'')\<rparr>, ts1, w1)))"

text \<open>
  \<open>handleSave\<close>: the result is the argument given to \<open>onSave\<close>, whether \<open>onCancel\<close> was
  called, and the state left. \<open>onSave\<close> is the caller's, given by its outcome.
\<close>

definition handleSave ::
  "(jsstring list \<Rightarrow> unit outcome) \<Rightarrow> editor_state \<Rightarrow> jsstring list \<times> bool \<times> editor_state" where
  "handleSave onSave es =
     (let es1 = es\<lparr>saving := True, editor_error := None\<rparr>;
          tagNames = map name (selectedTags es)
      in case onSave tagNames of
           Returned _ \<Rightarrow> (tagNames, True, es1\<lparr>saving := False\<rparr>)
         | Thrown _ \<Rightarrow>
             (tagNames, False,
              es1\<lparr>editor_error := Some (str ''Failed to save tags''), saving := False\<rparr>))"

text \<open>
  A session of the editor. \<open>handleTagToggle\<close> and \<open>handleRemoveSelected\<close> run to their
  end at once. \<open>handleCreateTag\<close> is asynchronous: it is called when the create form is
  submitted (\<open>Submit\<close>), with the closure of the last render, which holds the selection of
  that moment; it runs its last lines when it gets past its awaits (\<open>Resume\<close>), and the
  component handles other events in between. The session keeps the handlers that were
  called and have not resumed, each with its arguments and the selection it captured;
  \<open>Resume k\<close> lets the handler at index \<open>k\<close> finish. The calls of the backend that a handler
  makes are placed at its resumption: the replies are arbitrary, so this does not restrict
  what the selection can become.
\<close>

datatype editor_event =
    Toggle Tag
  | RemoveSelected jsstring
  | Submit jsstring jsstring
  | Resume nat

type_synonym pending_create = "jsstring \<times> jsstring \<times> Tag list"

type_synonym editor_session = "editor_state \<times> tags_state \<times> world \<times> pending_create list"

fun editor_step :: "editor_event \<Rightarrow> editor_session \<Rightarrow> editor_session" where
  "editor_step (Toggle tag) (es, ts, w, pending) = (handleTagToggle tag es, ts, w, pending)"
| "editor_step (RemoveSelected tagName) (es, ts, w, pending) =
     (handleRemoveSelected tagName es, ts, w, pending)"
| "editor_step (Submit nm col) (es, ts, w, pending) =
     (es, ts, w, pending @ [(nm, col, selectedTags es)])"
| "editor_step (Resume k) (es, ts, w, pending) =
     (if k < length pending
      then (case pending ! k of
              (nm, col, captured) \<Rightarrow>
                (case TagEditor_handleCreateTag nm col captured (es, ts, w) of
                   (es', ts', w') \<Rightarrow> (es', ts', w', take k pending @ drop (Suc k) pending)))
      else (es, ts, w, pending))"

definition editor_run :: "editor_event list \<Rightarrow> editor_session \<Rightarrow> editor_session" where
  "editor_run evs p = foldl (\<lambda>q ev. editor_step ev q) p evs"

section \<open>The Tag Store of the specification\<close>

text \<open>
  Modelled from the spec: the error taxonomy of the Tag Store (section 7). The store runs
  in the backend, behind the commands that the hooks invoke; its code is not among the
  sources.
\<close>

datatype store_error = EmptyName | InvalidColor | DuplicateTag | TagNotFound | PersistenceFailure

text \<open>
  Modelled from the spec: the Tags Database (section 3), the tag registry in insertion order
  together with the association index, a collection of pairs of target key and tag name.
\<close>

record tags_db =
  registry :: "Tag list"
  index :: "(jsstring \<times> jsstring) list"

text \<open>Modelled from the spec: Registry \<open>exists(name)\<close> (section 4.2), a case-sensitive exact match.\<close>

definition registry_exists :: "Tag list \<Rightarrow> jsstring \<Rightarrow> bool" where
  "registry_exists reg nm = list_ex (\<lambda>t. name t = nm) reg"

text \<open>
  Modelled from the spec: Registry \<open>create(name, color)\<close> (section 4.2). The spec gives no
  order for its three checks; they are made here in the order of its scenarios.
\<close>

definition registry_create :: "jsstring \<Rightarrow> jsstring \<Rightarrow> Tag list \<Rightarrow> store_error + Tag list" where
  "registry_create nm col reg =
     (if trim nm = [] then Inl EmptyName
      else if \<not> hex_color_spec col then Inl InvalidColor
      else if registry_exists reg nm then Inl DuplicateTag
      else Inr (reg @ [\<lparr>name = nm, color = col\<rparr>]))"

text \<open>Modelled from the spec: Registry \<open>delete(name)\<close> (section 4.2); associations are not touched.\<close>

definition registry_delete :: "jsstring \<Rightarrow> Tag list \<Rightarrow> store_error + Tag list" where
  "registry_delete nm reg =
     (if \<not> registry_exists reg nm then Inl TagNotFound
      else Inr (filter (\<lambda>t. name t \<noteq> nm) reg))"

text \<open>Modelled from the spec: Index \<open>tagsFor(T)\<close> (section 4.3).\<close>

definition tagsFor :: "(jsstring \<times> jsstring) list \<Rightarrow> jsstring \<Rightarrow> jsstring set" where
  "tagsFor idx T = snd ` set (filter (\<lambda>p. fst p = T) idx)"

text \<open>Modelled from the spec: Index \<open>targetsFor(N)\<close> (section 4.3).\<close>

definition targetsFor :: "(jsstring \<times> jsstring) list \<Rightarrow> jsstring \<Rightarrow> jsstring set" where
  "targetsFor idx N = fst ` set (filter (\<lambda>p. snd p = N) idx)"

text \<open>Modelled from the spec: Index \<open>add(T, N)\<close> (section 4.3), a no-op on a pair already present.\<close>

definition index_add :: "jsstring \<Rightarrow> jsstring \<Rightarrow> (jsstring \<times> jsstring) list \<Rightarrow> (jsstring \<times> jsstring) list" where
  "index_add T N idx = (if (T, N) \<in> set idx then idx else idx @ [(T, N)])"

text \<open>Modelled from the spec: Index \<open>remove(T, N)\<close> (section 4.3), a no-op on an absent pair.\<close>

definition index_remove :: "jsstring \<Rightarrow> jsstring \<Rightarrow> (jsstring \<times> jsstring) list \<Rightarrow> (jsstring \<times> jsstring) list" where
  "index_remove T N idx = filter (\<lambda>p. p \<noteq> (T, N)) idx"

text \<open>Modelled from the spec: Index \<open>removeTagEverywhere(N)\<close> (section 4.3).\<close>

definition removeTagEverywhere :: "jsstring \<Rightarrow> (jsstring \<times> jsstring) list \<Rightarrow> (jsstring \<times> jsstring) list" where
  "removeTagEverywhere N idx = filter (\<lambda>p. snd p \<noteq> N) idx"

text \<open>
  Modelled from the spec: the transactional boundary of the Tag Store (sections 4.4 and 7).
  \<open>save\<close> is the injected persistence capability and tells whether writing the aggregate
  succeeded; when it fails the change made in memory is rolled back.
\<close>

definition commit :: "(tags_db \<Rightarrow> bool) \<Rightarrow> tags_db \<Rightarrow> tags_db \<Rightarrow> (store_error + unit) \<times> tags_db" where
  "commit save old new = (if save new then (Inr (), new) else (Inl PersistenceFailure, old))"

text \<open>Modelled from the spec: Tag Store \<open>createTag(name, color)\<close> (section 4.4).\<close>

definition store_createTag ::
  "(tags_db \<Rightarrow> bool) \<Rightarrow> jsstring \<Rightarrow> jsstring \<Rightarrow> tags_db \<Rightarrow> (store_error + unit) \<times> tags_db" where
  "store_createTag save nm col db =
     (case registry_create nm col (registry db) of
        Inl e \<Rightarrow> (Inl e, db)
      | Inr reg \<Rightarrow> commit save db (db\<lparr>registry := reg\<rparr>))"

text \<open>
  Modelled from the spec: Tag Store \<open>deleteTag(name)\<close> (section 4.4): the registry removal
  and the cascade over the index are made before persisting.
\<close>

definition store_deleteTag ::
  "(tags_db \<Rightarrow> bool) \<Rightarrow> jsstring \<Rightarrow> tags_db \<Rightarrow> (store_error + unit) \<times> tags_db" where
  "store_deleteTag save nm db =
     (case registry_delete nm (registry db) of
        Inl e \<Rightarrow> (Inl e, db)
      | Inr reg \<Rightarrow> commit save db (db\<lparr>registry := reg, index := removeTagEverywhere nm (index db)\<rparr>))"

text \<open>
  Modelled from the spec: Tag Store \<open>addTagsToTarget(target, tagNames)\<close> (section 4.4): every
  name is validated before any mutation.
\<close>

definition addTagsToTarget ::
  "(tags_db \<Rightarrow> bool) \<Rightarrow> TagTarget \<Rightarrow> jsstring list \<Rightarrow> tags_db \<Rightarrow> (store_error + unit) \<times> tags_db" where
  "addTagsToTarget save target tagNames db =
     (if \<not> list_all (registry_exists (registry db)) tagNames then (Inl TagNotFound, db)
      else commit save db
             (db\<lparr>index := foldl (\<lambda>idx N. index_add (tagTargetToKey target) N idx) (index db) tagNames\<rparr>))"

text \<open>Modelled from the spec: Tag Store \<open>removeTagsFromTarget(target, tagNames)\<close> (section 4.4).\<close>

definition removeTagsFromTarget ::
  "(tags_db \<Rightarrow> bool) \<Rightarrow> TagTarget \<Rightarrow> jsstring list \<Rightarrow> tags_db \<Rightarrow> (store_error + unit) \<times> tags_db" where
  "removeTagsFromTarget save target tagNames db =
     commit save db
       (db\<lparr>index := foldl (\<lambda>idx N. index_remove (tagTargetToKey target) N idx) (index db) tagNames\<rparr>)"

text \<open>
  Modelled from the spec: referential integrity (section 3): every tag name that appears in
  an association exists in the registry.
\<close>

definition ref_integrity :: "tags_db \<Rightarrow> bool" where
  "ref_integrity db = list_all (\<lambda>p. registry_exists (registry db) (snd p)) (index db)"

section \<open>Example values\<close>

text \<open>Concrete states, tags and backends on which the definitions are evaluated.\<close>

definition idle :: tags_state where
  "idle = \<lparr>loading = False, error = None, tags = []\<rparr>"

definition idle_hook :: hook_state where
  "idle_hook = \<lparr>loading = False, error = None\<rparr>"

definition boss :: Tag where
  "boss = \<lparr>name = str ''Boss'', color = str ''#EF4444''\<rparr>"

text \<open>
  A backend that accepts every command and lists the tag \<open>Boss\<close>, but whose second reply
  is a rejection.
\<close>

definition reload_fails :: world where
  "reload_fails =
     \<lparr>replies = (\<lambda>k c. if k = 1 then Rejected (str ''busy'')
                         else if c = get_all_tags_command then Resolved [boss] else Resolved []),
      invoked = [], console = []\<rparr>"

definition all_fail :: world where
  "all_fail = \<lparr>replies = (\<lambda>k c. Rejected (str ''busy'')), invoked = [], console = []\<rparr>"

definition accepting :: world where
  "accepting =
     \<lparr>replies = (\<lambda>k c. if c = get_all_tags_command then Resolved [boss] else Resolved []),
      invoked = [], console = []\<rparr>"

definition picker_example :: picker_state where
  "picker_example = picker_initial\<lparr>showCreateForm := True, newTagName := str '' Boss ''\<rparr>"

definition urgent :: Tag where
  "urgent = \<lparr>name = str ''Urgent'', color = str ''#F97316''\<rparr>"

definition editor_example :: editor_state where
  "editor_example = \<lparr>selectedTags = [boss], saving = False, editor_error = None\<rparr>"

text \<open>A persistence capability that always succeeds, and an \<open>onSave\<close> that returns.\<close>

definition always_saves :: "tags_db \<Rightarrow> bool" where
  "always_saves db = True"

definition onSave_ok :: "jsstring list \<Rightarrow> unit outcome" where
  "onSave_ok tagNames = Returned ()"

definition important :: Tag where
  "important = \<lparr>name = str ''Important'', color = str ''#EF4444''\<rparr>"

definition tagged_db :: tags_db where
  "tagged_db =
     \<lparr>registry = [important],
      index = [(str ''save:world1'', str ''Important''), (str ''backup:world1:b1'', str ''Important'')]\<rparr>"

section \<open>Properties of the tag helpers\<close>

subsection \<open>The hex colour test\<close>

lemma iter_numeral [simp]:
  "iter (numeral k) f x = concat (map (iter (pred_numeral k) f) (f x))"
  by (simp add: numeral_eq_Suc)

lemma steps_hex_class:
  "steps hex_class (i, s) =
     (case s of [] \<Rightarrow> [] | x # xs \<Rightarrow> if is_hex_digit x then [(Suc i, xs)] else [])"
  by (auto simp: hex_class_def in_class_def is_hex_digit_def split: list.splits)

lemma iter_hex_class:
  "iter n (steps hex_class) (i, s) =
     (if n \<le> length s \<and> list_all is_hex_digit (take n s) then [(i + n, drop n s)] else [])"
proof (induction n arbitrary: i s)
  case 0
  then show ?case by simp
next
  case (Suc n)
  show ?case
  proof (cases s)
    case Nil
    then show ?thesis by (simp add: steps_hex_class)
  next
    case (Cons x xs)
    then show ?thesis by (simp add: steps_hex_class Suc.IH)
  qed
qed

lemma steps_hex_color_regex:
  "steps hex_color_regex (k, t) \<noteq> [] \<longleftrightarrow> k = 0 \<and> hex_color_spec t"
proof (cases t)
  case Nil
  then show ?thesis by (simp add: hex_color_regex_def hex_color_spec_def)
next
  case (Cons c ds)
  have len: "\<And>n. (n \<le> length ds \<and> drop n ds = []) = (length ds = n)"
    by auto
  show ?thesis
    unfolding Cons hex_color_regex_def hex_color_spec_def
    by (auto simp: iter_hex_class len simp del: iter_numeral)
qed

text \<open>
  C3. For every string \<open>s\<close>, \<open>isValidHexColor s\<close> is true if and only if \<open>s\<close> is \<open>#\<close>
  followed by exactly 3 or exactly 6 hexadecimal digits: the test of the source's regular
  expression agrees with the specification's description on every string.
\<close>

theorem isValidHexColor_iff: "isValidHexColor s \<longleftrightarrow> hex_color_spec s"
proof -
  have "isValidHexColor s \<longleftrightarrow> (\<exists>k \<le> length s. steps hex_color_regex (k, drop k s) \<noteq> [])"
    by (auto simp: isValidHexColor_def regex_test_def list_ex_iff less_Suc_eq_le simp del: upt_Suc)
  also have "\<dots> \<longleftrightarrow> hex_color_spec s"
    by (auto simp: steps_hex_color_regex)
  finally show ?thesis .
qed

theorem isValidHexColor_iff_witness:
  "isValidHexColor (str ''#FFF'') \<and> isValidHexColor (str ''#3B82F6'') \<and>
   \<not> isValidHexColor (str ''123456'') \<and> \<not> isValidHexColor (str ''#3B82F'')"
  using isValidHexColor_iff [of "str ''#FFF''"] isValidHexColor_iff [of "str ''#3B82F6''"]
    isValidHexColor_iff [of "str ''123456''"] isValidHexColor_iff [of "str ''#3B82F''"]
  by (simp add: hex_color_spec_def is_hex_digit_def str_def cu_def)

subsection \<open>The target key\<close>

lemma isBackupTarget_simps [simp]:
  "isBackupTarget (Backup s b)" "\<not> isBackupTarget (Save p)"
  by (simp_all add: isBackupTarget_def str_def cu_def)

lemma first_separator_unique:
  "c \<notin> set xs \<Longrightarrow> c \<notin> set ys \<Longrightarrow> xs @ c # us = ys @ c # vs \<Longrightarrow> xs = ys \<and> us = vs"
proof (induction xs arbitrary: ys)
  case Nil
  then show ?case by (cases ys) auto
next
  case (Cons x xs)
  then show ?case by (cases ys) auto
qed

text \<open>
  C4. \<open>tagTargetToKey\<close> is a total function of the target alone, and it returns exactly
  \<open>"backup:" + saveName + ":" + backupName\<close> for a backup target and
  \<open>"save:" + relativePath\<close> for a save target.
\<close>

theorem tagTargetToKey_value:
  "tagTargetToKey (Backup s b) = str ''backup:'' @ s @ str '':'' @ b \<and>
   tagTargetToKey (Save p) = str ''save:'' @ p"
  by (simp add: tagTargetToKey_def)

text \<open>
  C2. Two distinct targets whose \<open>saveName\<close> and \<open>backupName\<close> fields contain no \<open>:\<close>
  have distinct keys, and the key of a backup target never equals the key of a save
  target, whatever the fields hold.
\<close>

theorem tagTargetToKey_inj:
  "(t1 \<noteq> t2 \<longrightarrow> no_separator t1 \<longrightarrow> no_separator t2 \<longrightarrow> tagTargetToKey t1 \<noteq> tagTargetToKey t2) \<and>
   tagTargetToKey (Backup s b) \<noteq> tagTargetToKey (Save p)"
proof -
  have mixed: "\<And>s b p. tagTargetToKey (Backup s b) \<noteq> tagTargetToKey (Save p)"
    by (simp add: tagTargetToKey_def str_def cu_def)
  have same: "tagTargetToKey (Backup s1 b1) = tagTargetToKey (Backup s2 b2) \<Longrightarrow>
              cu CHR '':'' \<notin> set s1 \<Longrightarrow> cu CHR '':'' \<notin> set s2 \<Longrightarrow> s1 = s2 \<and> b1 = b2"
    for s1 b1 s2 b2
    using first_separator_unique [of "cu CHR '':''" s1 s2 b1 b2]
    by (simp add: tagTargetToKey_def str_def)
  have "tagTargetToKey t1 = tagTargetToKey t2 \<Longrightarrow> no_separator t1 \<Longrightarrow> no_separator t2 \<Longrightarrow> t1 = t2"
  proof (cases t1; cases t2)
    fix s1 b1 s2 b2
    assume "t1 = Backup s1 b1" "t2 = Backup s2 b2"
      and "tagTargetToKey t1 = tagTargetToKey t2" "no_separator t1" "no_separator t2"
    then show "t1 = t2" using same [of s1 b1 s2 b2] by simp
  next
    fix s1 b1 p2
    assume "t1 = Backup s1 b1" "t2 = Save p2" and "tagTargetToKey t1 = tagTargetToKey t2"
    then show "t1 = t2" using mixed [of s1 b1 p2] by simp
  next
    fix p1 s2 b2
    assume "t1 = Save p1" "t2 = Backup s2 b2" and "tagTargetToKey t1 = tagTargetToKey t2"
    then show "t1 = t2" using mixed [of s2 b2 p1] by simp
  next
    fix p1 p2
    assume "t1 = Save p1" "t2 = Save p2" and "tagTargetToKey t1 = tagTargetToKey t2"
    then show "t1 = t2" by (simp add: tagTargetToKey_def)
  qed
  with mixed show ?thesis by blast
qed

theorem tagTargetToKey_inj_witness:
  "Backup (str ''world'') (str ''b1'') \<noteq> Backup (str ''world'') (str ''b2'') \<and>
   no_separator (Backup (str ''world'') (str ''b1'')) \<and>
   no_separator (Backup (str ''world'') (str ''b2'')) \<and>
   tagTargetToKey (Backup (str ''world'') (str ''b1'')) \<noteq>
     tagTargetToKey (Backup (str ''world'') (str ''b2''))"
  using tagTargetToKey_inj [of "Backup (str ''world'') (str ''b1'')"
      "Backup (str ''world'') (str ''b2'')"]
  by (simp add: str_def cu_def)

subsection \<open>Light or dark text\<close>

lemma parseInt16_empty: "parseInt16 rnd [] = NaN"
  by (simp add: parseInt16_def)

lemma luminance_NaN: "luminance rnd r g NaN = NaN"
  by (simp add: luminance_def jmul_def jadd_def jdiv255_def split: jsnum.splits)

lemma jless_NaN: "\<not> jless NaN x"
  by (simp add: jless_def)

lemma is_hex_digit_plain:
  assumes "is_hex_digit c"
  shows "\<not> isWhiteSpace c" "c \<noteq> cu CHR ''-''" "c \<noteq> cu CHR ''+''"
    "c \<noteq> cu CHR ''x''" "c \<noteq> cu CHR ''X''" "c \<noteq> cu CHR ''#''"
  using assms
  by (auto simp: is_hex_digit_def isWhiteSpace_def cu_def word_le_nat_alt)

lemma parseInt16_two_digits:
  assumes "is_hex_digit a" "is_hex_digit b"
  shows "parseInt16 rnd [a, b] = Num (rnd (real (hex_value [a, b])))"
  using is_hex_digit_plain [OF assms(1)] is_hex_digit_plain [OF assms(2)] assms
  by (simp add: parseInt16_def str_def)

lemma shouldUseLightText_short:
  assumes "length (replace_first (cu CHR ''#'') [] s) \<le> 4"
  shows "\<not> shouldUseLightText rnd s"
  using assms
  by (simp add: shouldUseLightText_def substring_def parseInt16_empty luminance_NaN jless_NaN
      Let_def)

lemma is_hex_digit_cases:
  assumes "is_hex_digit c"
  shows "c \<in> set (str ''0123456789abcdefABCDEF'')"
proof -
  have "unat c \<in> {48..57} \<union> {65..70} \<union> {97..102}"
    using assms by (auto simp: is_hex_digit_def cu_def word_le_nat_alt)
  then have "unat c \<in> {48, 49, 50, 51, 52, 53, 54, 55, 56, 57, 65, 66, 67, 68, 69, 70,
                        97, 98, 99, 100, 101, 102}"
    by (elim UnE; simp; arith)
  then have "c \<in> {48, 49, 50, 51, 52, 53, 54, 55, 56, 57, 65, 66, 67, 68, 69, 70,
                        97, 98, 99, 100, 101, 102}"
    by (auto simp: word_unat_eq_iff)
  then show ?thesis
    by (auto simp: str_def cu_def)
qed

lemma hex_digit_value_spec:
  assumes "is_hex_digit c"
  shows "hex_digit_value c = digit_spec c"
  using is_hex_digit_cases [OF assms]
  by (auto simp: str_def cu_def hex_digit_value_def digit_spec_def hex_digit_table_def upt_rec)

lemma parseInt16_byte_spec:
  assumes "is_hex_digit a" "is_hex_digit b"
  shows "parseInt16 rnd [a, b] = Num (rnd (real (byte_spec a b)))"
  using assms
  by (simp add: parseInt16_two_digits hex_value_def byte_spec_def hex_digit_value_spec)

text \<open>
  C8. \<open>shouldUseLightText\<close> is a total function on strings (no step of it can throw). For
  every valid 3-digit hex colour it returns false, whatever the rounding: the blue
  component is parsed from the empty string and is \<open>NaN\<close>, so the comparison fails. For
  every valid 6-digit hex colour \<open>#RRGGBB\<close> the answer is the brightness test on the actual
  colour: \<open>(0.299 * R + 0.587 * G + 0.114 * B) / 255 < 0.5\<close> with \<open>R\<close>, \<open>G\<close>, \<open>B\<close> the values
  of the three digit pairs, every constant and every operation rounded to a double; in
  exact arithmetic that is \<open>299 * R + 587 * G + 114 * B < 127500\<close>.
\<close>

theorem shouldUseLightText_hex:
  "(hex_color_spec s \<and> length s = 4 \<longrightarrow> \<not> shouldUseLightText rnd s) \<and>
   (hex_color_spec s \<and> length s = 7 \<longrightarrow>
      shouldUseLightText rnd s =
        (rnd (rnd (rnd (rnd (rnd (299 / 1000) * rnd (real (byte_spec (s ! 1) (s ! 2)))) +
                        rnd (rnd (587 / 1000) * rnd (real (byte_spec (s ! 3) (s ! 4))))) +
                   rnd (rnd (114 / 1000) * rnd (real (byte_spec (s ! 5) (s ! 6))))) / 255)
         < 1 / 2)) \<and>
   (hex_color_spec s \<and> length s = 7 \<longrightarrow>
      shouldUseLightText id s =
        (299 * byte_spec (s ! 1) (s ! 2) + 587 * byte_spec (s ! 3) (s ! 4) +
         114 * byte_spec (s ! 5) (s ! 6) < 127500))"
proof -
  have short: "\<not> shouldUseLightText rnd s" if "hex_color_spec s \<and> length s = 4"
  proof -
    from that obtain ds where "s = cu CHR ''#'' # ds" "length ds = 3"
      by (auto simp: hex_color_spec_def split: list.splits)
    then show ?thesis
      by (intro shouldUseLightText_short) simp
  qed
  have long: "shouldUseLightText r s =
        (r (r (r (r (r (299 / 1000) * r (real (byte_spec (s ! 1) (s ! 2)))) +
                  r (r (587 / 1000) * r (real (byte_spec (s ! 3) (s ! 4))))) +
               r (r (114 / 1000) * r (real (byte_spec (s ! 5) (s ! 6))))) / 255)
         < 1 / 2)" if "hex_color_spec s \<and> length s = 7" for r
  proof -
    from that obtain ds where s: "s = cu CHR ''#'' # ds" and len: "length ds = 6"
      and hex: "list_all is_hex_digit ds"
      by (auto simp: hex_color_spec_def split: list.splits)
    from len obtain a b c d e f where ds: "ds = [a, b, c, d, e, f]"
      by (auto simp: length_Suc_conv eval_nat_numeral)
    from hex ds have h: "is_hex_digit a" "is_hex_digit b" "is_hex_digit c"
      "is_hex_digit d" "is_hex_digit e" "is_hex_digit f"
      by simp_all
    show ?thesis
      unfolding s ds
      by (simp add: shouldUseLightText_def substring_def Let_def luminance_def jmul_def jadd_def
          jdiv255_def jless_def
          parseInt16_byte_spec [OF h(1) h(2)] parseInt16_byte_spec [OF h(3) h(4)]
          parseInt16_byte_spec [OF h(5) h(6)])
  qed
  have exact: "shouldUseLightText id s =
        (299 * byte_spec (s ! 1) (s ! 2) + 587 * byte_spec (s ! 3) (s ! 4) +
         114 * byte_spec (s ! 5) (s ! 6) < 127500)" if a: "hex_color_spec s \<and> length s = 7"
  proof -
    define R G B where "R = byte_spec (s ! 1) (s ! 2)" and "G = byte_spec (s ! 3) (s ! 4)"
      and "B = byte_spec (s ! 5) (s ! 6)"
    have "shouldUseLightText id s =
            ((299 / 1000 * real R + 587 / 1000 * real G + 114 / 1000 * real B) / 255 < 1 / 2)"
      using long [OF a, of id] by (simp add: R_def G_def B_def)
    also have "\<dots> = (real (299 * R + 587 * G + 114 * B) < real 127500)"
      by (simp add: field_simps) linarith
    also have "\<dots> = (299 * R + 587 * G + 114 * B < 127500)"
      by (rule of_nat_less_iff)
    finally show ?thesis by (simp add: R_def G_def B_def)
  qed
  from short long [of rnd] exact show ?thesis by blast
qed

theorem shouldUseLightText_hex_witness:
  "hex_color_spec (str ''#000'') \<and> length (str ''#000'') = 4 \<and>
   \<not> shouldUseLightText id (str ''#000'') \<and>
   hex_color_spec (str ''#FFF'') \<and> \<not> shouldUseLightText id (str ''#FFF'') \<and>
   hex_color_spec (str ''#3B82F6'') \<and> length (str ''#3B82F6'') = 7 \<and>
   shouldUseLightText id (str ''#3B82F6'') \<and>
   hex_color_spec (str ''#EAB308'') \<and> length (str ''#EAB308'') = 7 \<and>
   \<not> shouldUseLightText id (str ''#EAB308'')"
  using shouldUseLightText_hex [of "str ''#000''" id] shouldUseLightText_hex [of "str ''#FFF''" id]
    shouldUseLightText_hex [of "str ''#3B82F6''" id]
    shouldUseLightText_hex [of "str ''#EAB308''" id]
  by (simp add: hex_color_spec_def is_hex_digit_def str_def cu_def byte_spec_def digit_spec_def
      hex_digit_table_def upt_rec)

section \<open>Properties of the components\<close>

subsection \<open>The create form of TagPicker\<close>

text \<open>
  C5. On every submission of the form, \<open>handleCreateTag\<close> of TagPicker calls \<open>onCreateTag\<close>
  only with the trimmed name, only when that name is not empty and the chosen colour
  (\<open>customColor\<close> if set, otherwise \<open>newTagColor\<close>) satisfies \<open>isValidHexColor\<close>. When the
  trimmed name is empty or the colour is invalid it returns without calling \<open>onCreateTag\<close>
  and leaves the form as it is. With a valid name and colour the callback is called once.
\<close>

theorem TagPicker_handleCreateTag_guard:
  "(onCreateTag n c \<in> set (fst (TagPicker_handleCreateTag cb ps)) \<longrightarrow>
      n = trim (newTagName ps) \<and> n \<noteq> [] \<and> c = chosen_color ps \<and> isValidHexColor c) \<and>
   (trim (newTagName ps) = [] \<or> \<not> isValidHexColor (chosen_color ps) \<longrightarrow>
      TagPicker_handleCreateTag cb ps = ([preventDefault], ps)) \<and>
   (trim (newTagName ps) \<noteq> [] \<and> isValidHexColor (chosen_color ps) \<longrightarrow>
      fst (TagPicker_handleCreateTag True ps) =
        [preventDefault, onCreateTag (trim (newTagName ps)) (chosen_color ps)])"
  by (auto simp: TagPicker_handleCreateTag_def Let_def split: if_splits)

theorem TagPicker_handleCreateTag_guard_witness:
  "onCreateTag (str ''Boss'') (str ''#3B82F6'') \<in> set (fst (TagPicker_handleCreateTag True picker_example)) \<and>
   str ''Boss'' = trim (newTagName picker_example) \<and>
   isValidHexColor (str ''#3B82F6'') \<and>
   trim (newTagName (picker_example\<lparr>newTagName := str ''  ''\<rparr>)) = [] \<and>
   TagPicker_handleCreateTag True (picker_example\<lparr>newTagName := str ''  ''\<rparr>)
     = ([preventDefault], picker_example\<lparr>newTagName := str ''  ''\<rparr>)"
  using TagPicker_handleCreateTag_guard [of "str ''Boss''" "str ''#3B82F6''" True picker_example]
    TagPicker_handleCreateTag_guard [of _ _ True "picker_example\<lparr>newTagName := str ''  ''\<rparr>"]
  by (simp add: picker_example_def picker_initial_def DEFAULT_TAG_COLORS_def chosen_color_def
      trim_def str_def cu_def isWhiteSpace_def isValidHexColor_def regex_test_def hex_color_regex_def hex_class_def in_class_def upt_rec)

subsection \<open>The selection of TagEditor\<close>

text \<open>
  C7. Removing a tag from the selection is idempotent: \<open>handleRemoveSelected\<close> with a
  name that no selected tag carries leaves the state unchanged, and applying it twice with
  the same name gives the same state as applying it once.
\<close>

theorem handleRemoveSelected_idem:
  "(tagName \<notin> set (map name (selectedTags es)) \<longrightarrow> handleRemoveSelected tagName es = es) \<and>
   handleRemoveSelected tagName (handleRemoveSelected tagName es) = handleRemoveSelected tagName es"
proof -
  have "filter (\<lambda>t. name t \<noteq> tagName) (selectedTags es) = selectedTags es"
    if "tagName \<notin> set (map name (selectedTags es))"
    using that by (auto simp: filter_id_conv)
  then show ?thesis
    by (simp add: handleRemoveSelected_def)
qed

theorem handleRemoveSelected_idem_witness:
  "str ''Urgent'' \<notin> set (map name (selectedTags editor_example)) \<and>
   handleRemoveSelected (str ''Urgent'') editor_example = editor_example \<and>
   handleRemoveSelected (str ''Boss'') (handleRemoveSelected (str ''Boss'') editor_example) =
     editor_example\<lparr>selectedTags := []\<rparr>"
  using handleRemoveSelected_idem [of "str ''Urgent''" editor_example]
    handleRemoveSelected_idem [of "str ''Boss''" editor_example]
  by (simp add: editor_example_def boss_def str_def cu_def handleRemoveSelected_def)

text \<open>\<open>handleTagToggle\<close> and \<open>handleRemoveSelected\<close> keep the names of the selection distinct.\<close>

lemma handleTagToggle_distinct:
  "distinct (map name (selectedTags es)) \<Longrightarrow>
   distinct (map name (selectedTags (handleTagToggle tag es)))"
  by (auto simp: handleTagToggle_def Let_def list_ex_iff distinct_map_filter)

lemma handleRemoveSelected_distinct:
  "distinct (map name (selectedTags es)) \<Longrightarrow>
   distinct (map name (selectedTags (handleRemoveSelected tagName es)))"
  by (simp add: handleRemoveSelected_def distinct_map_filter)

text \<open>
  \<open>handleCreateTag\<close> keeps the names distinct when the selection that its closure
  captured agrees with the current one on the new name.
\<close>

lemma TagEditor_handleCreateTag_distinct:
  assumes "distinct (map name (selectedTags es))"
    and "list_ex (\<lambda>t. name t = nm) captured = list_ex (\<lambda>t. name t = nm) (selectedTags es)"
  shows "distinct (map name (selectedTags (fst (TagEditor_handleCreateTag nm col captured (es, ts, w)))))"
  using assms
  by (auto simp: TagEditor_handleCreateTag_def Let_def list_ex_iff
      split: prod.splits outcome.splits)

text \<open>
  C10. The names that \<open>handleSave\<close> gives to \<open>onSave\<close> are not always distinct, although
  the selection starts with distinct names. The selection is \<open>Boss\<close>; the create form is
  submitted with the name \<open>Urgent\<close>; while \<open>handleCreateTag\<close> awaits the backend, the tag
  \<open>Urgent\<close> is toggled on; \<open>handleCreateTag\<close> resumes, tests the selection that it
  captured, which holds no \<open>Urgent\<close>, and appends the new tag to the current one. The save
  then passes \<open>Boss\<close>, \<open>Urgent\<close>, \<open>Urgent\<close>.
\<close>

theorem TagEditor_duplicate_names:
  "distinct (map name (selectedTags editor_example)) \<and>
   fst (handleSave onSave_ok
     (fst (editor_run [Submit (str ''Urgent'') (str ''#F97316''), Toggle urgent, Resume 0]
            (editor_example, idle, accepting, [])))) =
     [str ''Boss'', str ''Urgent'', str ''Urgent''] \<and>
   \<not> distinct (fst (handleSave onSave_ok
     (fst (editor_run [Submit (str ''Urgent'') (str ''#F97316''), Toggle urgent, Resume 0]
            (editor_example, idle, accepting, [])))))"
  by (simp add: editor_example_def boss_def urgent_def str_def cu_def editor_run_def
      handleSave_def handleTagToggle_def TagEditor_handleCreateTag_def createTag_def
      loadAllTags_def invoke_def console_error_def accepting_def idle_def onSave_ok_def Let_def)

section \<open>Properties of the hooks\<close>

subsection \<open>Reloading after a mutation\<close>

lemma invoke_simps [simp]:
  "fst (invoke c w) = replies w (length (invoked w)) c"
  "invoked (snd (invoke c w)) = invoked w @ [c]"
  "replies (snd (invoke c w)) = replies w"
  by (simp_all add: invoke_def)

lemma loadAllTags_invoked:
  "invoked (snd (loadAllTags (st, w))) = invoked w @ [get_all_tags_command]"
  by (simp add: loadAllTags_def invoke_def console_error_def Let_def split: settled.splits)

lemma loadAllTags_tags:
  "tags (fst (loadAllTags (st, w))) =
     (case replies w (length (invoked w)) get_all_tags_command of
        Resolved ts \<Rightarrow> ts | Rejected e \<Rightarrow> tags st)"
  by (simp add: loadAllTags_def invoke_def Let_def split: settled.splits)

lemma loadAllTags_error:
  "error (fst (loadAllTags (st, w))) =
     (case replies w (length (invoked w)) get_all_tags_command of
        Resolved ts \<Rightarrow> None | Rejected e \<Rightarrow> Some (str ''Failed to load tags''))"
  by (simp add: loadAllTags_def invoke_def Let_def split: settled.splits)

lemma createTag_resolved:
  assumes "replies w (length (invoked w)) (create_tag_command nm col) = Resolved x"
  shows "createTag nm col (st, w) =
     (Returned (),
      (fst (loadAllTags (st\<lparr>loading := True, error := None\<rparr>,
                         w\<lparr>invoked := invoked w @ [create_tag_command nm col]\<rparr>)))\<lparr>loading := False\<rparr>,
      snd (loadAllTags (st\<lparr>loading := True, error := None\<rparr>,
                         w\<lparr>invoked := invoked w @ [create_tag_command nm col]\<rparr>)))"
  using assms by (simp add: createTag_def invoke_def Let_def split: prod.splits)

lemma deleteTag_resolved:
  assumes "replies w (length (invoked w)) (delete_tag_command nm) = Resolved x"
  shows "deleteTag nm (st, w) =
     (Returned (),
      (fst (loadAllTags (st\<lparr>loading := True, error := None\<rparr>,
                         w\<lparr>invoked := invoked w @ [delete_tag_command nm]\<rparr>)))\<lparr>loading := False\<rparr>,
      snd (loadAllTags (st\<lparr>loading := True, error := None\<rparr>,
                         w\<lparr>invoked := invoked w @ [delete_tag_command nm]\<rparr>)))"
  using assms by (simp add: deleteTag_def invoke_def Let_def split: prod.splits)

text \<open>
  C6. In \<open>useTags\<close>, when the backend command of \<open>createTag\<close> or \<open>deleteTag\<close> resolves,
  \<open>loadAllTags\<close> runs and invokes \<open>get_all_tags_command\<close> before the mutating call returns,
  and the call returns normally. When that command resolves, the cached \<open>tags\<close> are
  replaced by its result; when it rejects, \<open>tags\<close> are left as they were and \<open>error\<close> is
  set to \<open>Failed to load tags\<close>.
\<close>

theorem useTags_reload_after_mutation:
  "(replies w (length (invoked w)) (create_tag_command nm col) = Resolved x \<longrightarrow>
      fst (createTag nm col (st, w)) = Returned () \<and>
      invoked (snd (snd (createTag nm col (st, w)))) =
        invoked w @ [create_tag_command nm col, get_all_tags_command] \<and>
      (replies w (Suc (length (invoked w))) get_all_tags_command = Resolved allTags \<longrightarrow>
         tags (fst (snd (createTag nm col (st, w)))) = allTags) \<and>
      (replies w (Suc (length (invoked w))) get_all_tags_command = Rejected e \<longrightarrow>
         tags (fst (snd (createTag nm col (st, w)))) = tags st \<and>
         error (fst (snd (createTag nm col (st, w)))) = Some (str ''Failed to load tags''))) \<and>
   (replies w (length (invoked w)) (delete_tag_command nm) = Resolved x \<longrightarrow>
      fst (deleteTag nm (st, w)) = Returned () \<and>
      invoked (snd (snd (deleteTag nm (st, w)))) =
        invoked w @ [delete_tag_command nm, get_all_tags_command] \<and>
      (replies w (Suc (length (invoked w))) get_all_tags_command = Resolved allTags \<longrightarrow>
         tags (fst (snd (deleteTag nm (st, w)))) = allTags) \<and>
      (replies w (Suc (length (invoked w))) get_all_tags_command = Rejected e \<longrightarrow>
         tags (fst (snd (deleteTag nm (st, w)))) = tags st \<and>
         error (fst (snd (deleteTag nm (st, w)))) = Some (str ''Failed to load tags'')))"
  by (simp add: createTag_resolved deleteTag_resolved loadAllTags_invoked loadAllTags_tags
      loadAllTags_error)

theorem useTags_reload_after_mutation_witness:
  "replies accepting (length (invoked accepting))
     (create_tag_command (str ''Boss'') (str ''#EF4444'')) = Resolved [] \<and>
   replies accepting (Suc (length (invoked accepting))) get_all_tags_command = Resolved [boss] \<and>
   tags (fst (snd (createTag (str ''Boss'') (str ''#EF4444'') (idle, accepting)))) = [boss] \<and>
   replies reload_fails (length (invoked reload_fails)) (delete_tag_command (str ''Boss'')) =
     Resolved [] \<and>
   replies reload_fails (Suc (length (invoked reload_fails))) get_all_tags_command =
     Rejected (str ''busy'') \<and>
   invoked (snd (snd (deleteTag (str ''Boss'') (idle, reload_fails)))) =
     [delete_tag_command (str ''Boss''), get_all_tags_command] \<and>
   error (fst (snd (deleteTag (str ''Boss'') (idle, reload_fails)))) =
     Some (str ''Failed to load tags'')"
  using useTags_reload_after_mutation [of accepting "str ''Boss''" "str ''#EF4444''" "[]" idle
      "[boss]" "str ''busy''"]
    useTags_reload_after_mutation [of reload_fails "str ''Boss''" "str ''#EF4444''" "[]" idle
      "[boss]" "str ''busy''"]
  by (simp add: accepting_def reload_fails_def)

text \<open>
  The cache is not always resynchronised when the mutating call returns: with a backend
  that creates the tag but rejects the reload, \<open>createTag\<close> returns normally and the
  cached list is still empty, while a later \<open>loadAllTags\<close> finds the tag.
\<close>

theorem useTags_reload_counterexample:
  "replies reload_fails 0 (create_tag_command (str ''Boss'') (str ''#EF4444'')) = Resolved [] \<and>
   fst (createTag (str ''Boss'') (str ''#EF4444'') (idle, reload_fails)) = Returned () \<and>
   tags (fst (snd (createTag (str ''Boss'') (str ''#EF4444'') (idle, reload_fails)))) = [] \<and>
   tags (fst (loadAllTags
     (snd (createTag (str ''Boss'') (str ''#EF4444'') (idle, reload_fails))))) = [boss]"
  by (simp add: createTag_def loadAllTags_def invoke_def console_error_def reload_fails_def
      idle_def Let_def)

subsection \<open>Failures of the backend\<close>

lemma read_write_simps:
  "fst (getBackupTags sv bk (hs, w)) =
     (case replies w (length (invoked w)) (get_backup_tags_command sv bk) of
        Resolved ts \<Rightarrow> Returned ts | Rejected e \<Rightarrow> Returned [])"
  "fst (getSaveTags rp (hs, w)) =
     (case replies w (length (invoked w)) (get_save_tags_command rp) of
        Resolved ts \<Rightarrow> Returned ts | Rejected e \<Rightarrow> Returned [])"
  by (simp_all add: getBackupTags_def getSaveTags_def invoke_def Let_def split: settled.splits)

text \<open>
  C9. Reads and mutations differ on failure. When the backend rejects their command,
  \<open>getBackupTags\<close> and \<open>getSaveTags\<close> return the empty list, and they throw in no case.
  When the backend rejects the command of \<open>createTag\<close>, \<open>deleteTag\<close>, \<open>addBackupTags\<close>,
  \<open>removeBackupTags\<close>, \<open>addSaveTags\<close> or \<open>removeSaveTags\<close>, the operation throws the same
  rejection to its caller, after setting its \<open>error\<close> message. When the command of
  \<open>createTag\<close> or \<open>deleteTag\<close> resolves and the backend rejects the reload that follows,
  \<open>loadAllTags\<close> catches the rejection: the operation returns normally, with \<open>error\<close> set
  to \<open>Failed to load tags\<close>.
\<close>

theorem hooks_failure_asymmetry:
  "(replies w (length (invoked w)) (get_backup_tags_command sv bk) = Rejected e \<longrightarrow>
      fst (getBackupTags sv bk (hs, w)) = Returned []) \<and>
   (replies w (length (invoked w)) (get_save_tags_command rp) = Rejected e \<longrightarrow>
      fst (getSaveTags rp (hs, w)) = Returned []) \<and>
   fst (getBackupTags sv bk (hs, w)) \<noteq> Thrown e' \<and>
   fst (getSaveTags rp (hs, w)) \<noteq> Thrown e' \<and>
   (replies w (length (invoked w)) (create_tag_command nm col) = Rejected e \<longrightarrow>
      fst (createTag nm col (ts, w)) = Thrown e \<and>
      error (fst (snd (createTag nm col (ts, w)))) = Some (str ''Failed to create tag'')) \<and>
   (replies w (length (invoked w)) (delete_tag_command nm) = Rejected e \<longrightarrow>
      fst (deleteTag nm (ts, w)) = Thrown e \<and>
      error (fst (snd (deleteTag nm (ts, w)))) = Some (str ''Failed to delete tag'')) \<and>
   (replies w (length (invoked w)) (add_tags_to_backup_command sv bk tagNames) = Rejected e \<longrightarrow>
      fst (addBackupTags sv bk tagNames (hs, w)) = Thrown e \<and>
      error (fst (snd (addBackupTags sv bk tagNames (hs, w)))) = Some (str ''Failed to add backup tags'')) \<and>
   (replies w (length (invoked w)) (remove_tags_from_backup_command sv bk tagNames) = Rejected e \<longrightarrow>
      fst (removeBackupTags sv bk tagNames (hs, w)) = Thrown e \<and>
      error (fst (snd (removeBackupTags sv bk tagNames (hs, w)))) =
        Some (str ''Failed to remove backup tags'')) \<and>
   (replies w (length (invoked w)) (add_tags_to_save_command rp tagNames) = Rejected e \<longrightarrow>
      fst (addSaveTags rp tagNames (hs, w)) = Thrown e \<and>
      error (fst (snd (addSaveTags rp tagNames (hs, w)))) = Some (str ''Failed to add save tags'')) \<and>
   (replies w (length (invoked w)) (remove_tags_from_save_command rp tagNames) = Rejected e \<longrightarrow>
      fst (removeSaveTags rp tagNames (hs, w)) = Thrown e \<and>
      error (fst (snd (removeSaveTags rp tagNames (hs, w)))) = Some (str ''Failed to remove save tags'')) \<and>
   (replies w (length (invoked w)) (create_tag_command nm col) = Resolved x \<and>
    replies w (Suc (length (invoked w))) get_all_tags_command = Rejected e \<longrightarrow>
      fst (createTag nm col (ts, w)) = Returned () \<and>
      error (fst (snd (createTag nm col (ts, w)))) = Some (str ''Failed to load tags'')) \<and>
   (replies w (length (invoked w)) (delete_tag_command nm) = Resolved x \<and>
    replies w (Suc (length (invoked w))) get_all_tags_command = Rejected e \<longrightarrow>
      fst (deleteTag nm (ts, w)) = Returned () \<and>
      error (fst (snd (deleteTag nm (ts, w)))) = Some (str ''Failed to load tags''))"
proof -
  have reads: "fst (getBackupTags sv bk (hs, w)) \<noteq> Thrown e'" "fst (getSaveTags rp (hs, w)) \<noteq> Thrown e'"
    by (simp_all add: read_write_simps split: settled.splits)
  have reads_rej:
    "replies w (length (invoked w)) (get_backup_tags_command sv bk) = Rejected e \<Longrightarrow>
       fst (getBackupTags sv bk (hs, w)) = Returned []"
    "replies w (length (invoked w)) (get_save_tags_command rp) = Rejected e \<Longrightarrow>
       fst (getSaveTags rp (hs, w)) = Returned []"
    by (simp_all add: read_write_simps)
  have c: "replies w (length (invoked w)) (create_tag_command nm col) = Rejected e \<Longrightarrow>
      fst (createTag nm col (ts, w)) = Thrown e \<and>
      error (fst (snd (createTag nm col (ts, w)))) = Some (str ''Failed to create tag'')"
    by (simp add: createTag_def invoke_def Let_def)
  have d: "replies w (length (invoked w)) (delete_tag_command nm) = Rejected e \<Longrightarrow>
      fst (deleteTag nm (ts, w)) = Thrown e \<and>
      error (fst (snd (deleteTag nm (ts, w)))) = Some (str ''Failed to delete tag'')"
    by (simp add: deleteTag_def invoke_def Let_def)
  have ab: "replies w (length (invoked w)) (add_tags_to_backup_command sv bk tagNames) = Rejected e \<Longrightarrow>
      fst (addBackupTags sv bk tagNames (hs, w)) = Thrown e \<and>
      error (fst (snd (addBackupTags sv bk tagNames (hs, w)))) = Some (str ''Failed to add backup tags'')"
    by (simp add: addBackupTags_def invoke_def Let_def)
  have rb: "replies w (length (invoked w)) (remove_tags_from_backup_command sv bk tagNames) = Rejected e \<Longrightarrow>
      fst (removeBackupTags sv bk tagNames (hs, w)) = Thrown e \<and>
      error (fst (snd (removeBackupTags sv bk tagNames (hs, w)))) =
        Some (str ''Failed to remove backup tags'')"
    by (simp add: removeBackupTags_def invoke_def Let_def)
  have as: "replies w (length (invoked w)) (add_tags_to_save_command rp tagNames) = Rejected e \<Longrightarrow>
      fst (addSaveTags rp tagNames (hs, w)) = Thrown e \<and>
      error (fst (snd (addSaveTags rp tagNames (hs, w)))) = Some (str ''Failed to add save tags'')"
    by (simp add: addSaveTags_def invoke_def Let_def)
  have rs: "replies w (length (invoked w)) (remove_tags_from_save_command rp tagNames) = Rejected e \<Longrightarrow>
      fst (removeSaveTags rp tagNames (hs, w)) = Thrown e \<and>
      error (fst (snd (removeSaveTags rp tagNames (hs, w)))) = Some (str ''Failed to remove save tags'')"
    by (simp add: removeSaveTags_def invoke_def Let_def)
  have cr: "replies w (length (invoked w)) (create_tag_command nm col) = Resolved x \<and>
      replies w (Suc (length (invoked w))) get_all_tags_command = Rejected e \<Longrightarrow>
      fst (createTag nm col (ts, w)) = Returned () \<and>
      error (fst (snd (createTag nm col (ts, w)))) = Some (str ''Failed to load tags'')"
    by (simp add: createTag_resolved loadAllTags_error)
  have dr: "replies w (length (invoked w)) (delete_tag_command nm) = Resolved x \<and>
      replies w (Suc (length (invoked w))) get_all_tags_command = Rejected e \<Longrightarrow>
      fst (deleteTag nm (ts, w)) = Returned () \<and>
      error (fst (snd (deleteTag nm (ts, w)))) = Some (str ''Failed to load tags'')"
    by (simp add: deleteTag_resolved loadAllTags_error)
  from reads reads_rej c d ab rb as rs cr dr show ?thesis by blast
qed

theorem hooks_failure_asymmetry_witness:
  "replies all_fail (length (invoked all_fail))
     (get_backup_tags_command (str ''world1'') (str ''b1'')) = Rejected (str ''busy'') \<and>
   fst (getBackupTags (str ''world1'') (str ''b1'') (idle_hook, all_fail)) = Returned [] \<and>
   fst (getSaveTags (str ''world1'') (idle_hook, all_fail)) = Returned [] \<and>
   fst (createTag (str ''Boss'') (str ''#EF4444'') (idle, all_fail)) = Thrown (str ''busy'') \<and>
   fst (deleteTag (str ''Boss'') (idle, all_fail)) = Thrown (str ''busy'') \<and>
   fst (addBackupTags (str ''world1'') (str ''b1'') [str ''Boss''] (idle_hook, all_fail)) =
     Thrown (str ''busy'') \<and>
   fst (removeBackupTags (str ''world1'') (str ''b1'') [str ''Boss''] (idle_hook, all_fail)) =
     Thrown (str ''busy'') \<and>
   fst (addSaveTags (str ''world1'') [str ''Boss''] (idle_hook, all_fail)) =
     Thrown (str ''busy'') \<and>
   fst (removeSaveTags (str ''world1'') [str ''Boss''] (idle_hook, all_fail)) =
     Thrown (str ''busy'') \<and>
   replies reload_fails (length (invoked reload_fails))
     (create_tag_command (str ''Boss'') (str ''#EF4444'')) = Resolved [] \<and>
   replies reload_fails (Suc (length (invoked reload_fails))) get_all_tags_command =
     Rejected (str ''busy'') \<and>
   error (fst (snd (createTag (str ''Boss'') (str ''#EF4444'') (idle, reload_fails)))) =
     Some (str ''Failed to load tags'')"
  using hooks_failure_asymmetry [of all_fail "str ''world1''" "str ''b1''" "str ''busy''" idle_hook
      "str ''world1''" _ "str ''Boss''" "str ''#EF4444''" idle "[str ''Boss'']" "[]"]
    hooks_failure_asymmetry [of reload_fails "str ''world1''" "str ''b1''" "str ''busy''" idle_hook
      "str ''world1''" _ "str ''Boss''" "str ''#EF4444''" idle "[str ''Boss'']" "[]"]
  by (simp add: all_fail_def reload_fails_def)

text \<open>
  Not every failure of the backend inside a mutating operation is thrown to the caller:
  when \<open>delete_tag_command\<close> resolves and the reload is rejected, \<open>deleteTag\<close> does not
  throw the rejection but returns normally.
\<close>

theorem hooks_failure_counterexample:
  "replies reload_fails 0 (delete_tag_command (str ''Boss'')) = Resolved [] \<and>
   replies reload_fails 1 get_all_tags_command = Rejected (str ''busy'') \<and>
   invoked (snd (snd (deleteTag (str ''Boss'') (idle, reload_fails)))) =
     [delete_tag_command (str ''Boss''), get_all_tags_command] \<and>
   fst (deleteTag (str ''Boss'') (idle, reload_fails)) \<noteq> Thrown (str ''busy'') \<and>
   fst (deleteTag (str ''Boss'') (idle, reload_fails)) = Returned ()"
  by (simp add: deleteTag_def loadAllTags_def invoke_def console_error_def reload_fails_def
      idle_def Let_def)

section \<open>Properties of the Tag Store\<close>

lemma registry_exists_append [simp]:
  "registry_exists (reg @ [t]) nm \<longleftrightarrow> registry_exists reg nm \<or> name t = nm"
  by (auto simp: registry_exists_def list_ex_iff)

lemma registry_exists_filter [simp]:
  "registry_exists (filter (\<lambda>t. name t \<noteq> nm) reg) m \<longleftrightarrow> registry_exists reg m \<and> m \<noteq> nm"
  by (auto simp: registry_exists_def list_ex_iff)

lemma fold_add_set:
  "set (foldl (\<lambda>idx N. index_add T N idx) idx ns) = set idx \<union> (\<lambda>N. (T, N)) ` set ns"
  by (induction ns arbitrary: idx) (auto simp: index_add_def)

lemma fold_remove_set:
  "set (foldl (\<lambda>idx N. index_remove T N idx) idx ns) \<subseteq> set idx"
proof (induction ns arbitrary: idx)
  case Nil
  then show ?case by simp
next
  case (Cons N ns)
  have "set (foldl (\<lambda>idx N. index_remove T N idx) (index_remove T N idx) ns)
          \<subseteq> set (index_remove T N idx)"
    by (rule Cons.IH)
  also have "\<dots> \<subseteq> set idx"
    by (auto simp: index_remove_def)
  finally show ?case by simp
qed

lemma createTag_integrity:
  "ref_integrity db \<Longrightarrow> ref_integrity (snd (store_createTag save nm col db))"
  by (auto simp: store_createTag_def registry_create_def commit_def ref_integrity_def
      list_all_iff split: sum.splits if_splits)

lemma deleteTag_integrity:
  "ref_integrity db \<Longrightarrow> ref_integrity (snd (store_deleteTag save nm db))"
  by (auto simp: store_deleteTag_def registry_delete_def commit_def ref_integrity_def
      removeTagEverywhere_def list_all_iff split: sum.splits if_splits)

lemma addTagsToTarget_integrity:
  "ref_integrity db \<Longrightarrow> ref_integrity (snd (addTagsToTarget save target tagNames db))"
  by (auto simp: addTagsToTarget_def commit_def ref_integrity_def fold_add_set list_all_iff)

lemma removeTagsFromTarget_integrity:
  "ref_integrity db \<Longrightarrow> ref_integrity (snd (removeTagsFromTarget save target tagNames db))"
  using fold_remove_set [of "tagTargetToKey target" "index db" tagNames]
  by (auto simp: removeTagsFromTarget_def commit_def ref_integrity_def list_all_iff)

lemma deleteTag_post:
  assumes "fst (store_deleteTag save nm db) = Inr ()"
  shows "targetsFor (index (snd (store_deleteTag save nm db))) nm = {}"
    and "nm \<notin> tagsFor (index (snd (store_deleteTag save nm db))) T"
    and "\<not> registry_exists (registry (snd (store_deleteTag save nm db))) nm"
  using assms
  by (auto simp: store_deleteTag_def registry_delete_def commit_def targetsFor_def tagsFor_def
      removeTagEverywhere_def split: if_splits)

text \<open>
  C1. Referential integrity holds of the empty Tags Database and is kept by every operation
  of the Tag Store, whether it commits or is rejected: every tag name in an association
  exists in the registry. After \<open>deleteTag(name)\<close> succeeds, \<open>targetsFor(name)\<close> is empty,
  no target's tag set holds the name, and \<open>exists(name)\<close> is false.
\<close>

theorem store_referential_integrity:
  "ref_integrity \<lparr>registry = [], index = []\<rparr> \<and>
   (ref_integrity db \<longrightarrow>
      ref_integrity (snd (store_createTag save nm col db)) \<and>
      ref_integrity (snd (store_deleteTag save nm db)) \<and>
      ref_integrity (snd (addTagsToTarget save target tagNames db)) \<and>
      ref_integrity (snd (removeTagsFromTarget save target tagNames db))) \<and>
   (fst (store_deleteTag save nm db) = Inr () \<longrightarrow>
      targetsFor (index (snd (store_deleteTag save nm db))) nm = {} \<and>
      nm \<notin> tagsFor (index (snd (store_deleteTag save nm db))) T \<and>
      \<not> registry_exists (registry (snd (store_deleteTag save nm db))) nm)"
  using createTag_integrity deleteTag_integrity addTagsToTarget_integrity
    removeTagsFromTarget_integrity deleteTag_post
  by (simp add: ref_integrity_def)

theorem store_referential_integrity_witness:
  "ref_integrity tagged_db \<and>
   fst (store_deleteTag always_saves (str ''Important'') tagged_db) = Inr () \<and>
   snd (store_deleteTag always_saves (str ''Important'') tagged_db) =
     \<lparr>registry = [], index = []\<rparr> \<and>
   targetsFor (index (snd (store_deleteTag always_saves (str ''Important'') tagged_db)))
     (str ''Important'') = {} \<and>
   ref_integrity
     (snd (addTagsToTarget always_saves (Save (str ''world2'')) [str ''Important''] tagged_db))"
  using store_referential_integrity [of tagged_db always_saves "str ''Important''"
      "str ''#EF4444''" "Save (str ''world2'')" "[str ''Important'']"]
  by (simp add: tagged_db_def important_def ref_integrity_def registry_exists_def
      store_deleteTag_def registry_delete_def commit_def removeTagEverywhere_def always_saves_def
      str_def cu_def)

end
